theory Spec2Isabelle
  imports Complex_Main "HOL-Library.AList"
begin

section \<open>Values exchanged with the upstream API\<close>

text \<open>
  The handlers of \<^verbatim>\<open>api/app\<close> traverse whatever \<^verbatim>\<open>req.json()\<close> returns with
  Python's dynamic operations. The value type below is what Python's JSON decoder
  produces: \<^verbatim>\<open>None\<close>, \<^verbatim>\<open>bool\<close>, unbounded \<^verbatim>\<open>int\<close>, \<^verbatim>\<open>float\<close>, \<^verbatim>\<open>str\<close>, \<^verbatim>\<open>list\<close>
  and \<^verbatim>\<open>dict\<close> with string keys. A dict is an association list in insertion order,
  read with \<^const>\<open>map_of\<close>; a float is its exact rational value, an infinity or NaN
  (the decoder accepts \<^verbatim>\<open>Infinity\<close> and \<^verbatim>\<open>NaN\<close>).
\<close>

datatype pyfloat = Finite rat | PosInf | NegInf | NaN

datatype json =
    JNull
  | JBool bool
  | JInt int
  | JFloat pyfloat
  | JStr string
  | JArr "json list"
  | JObj "(string \<times> json) list"

text \<open>
  Every exception below is a subclass of Python's \<^verbatim>\<open>Exception\<close>, which is what the
  handler's \<^verbatim>\<open>except Exception\<close> catches.
\<close>

datatype py_exn =
    AttributeError
  | TypeError
  | KeyError
  | IndexError
  | ValueError
  | OverflowError
  | RequestException
  | JSONDecodeError

text \<open>
  Behaviour of the Python runtime that the repository does not fix is a parameter:
  \<open>str_of\<close> is \<^verbatim>\<open>str(v)\<close> for a value that is not a string (used by the f-string of
  the badge), \<open>int_of_text\<close> is \<^verbatim>\<open>int(s)\<close> for a string with characters outside
  ASCII (Python accepts any Unicode decimal digit), and \<open>max_str_digits\<close> is the
  interpreter's limit on the digits of a converted string (\<open>0\<close>: no limit; CPython
  checks it only for more than 640 digits).
\<close>

record pylib =
  str_of :: "json \<Rightarrow> string"
  int_of_text :: "string \<Rightarrow> int option"
  max_str_digits :: nat

definition bind_exn :: "py_exn + 'a \<Rightarrow> ('a \<Rightarrow> py_exn + 'b) \<Rightarrow> py_exn + 'b" where
  "bind_exn m f = (case m of Inl e \<Rightarrow> Inl e | Inr x \<Rightarrow> f x)"

subsection \<open>Dynamic operations of Python on decoded values\<close>

text \<open>Truth value of a value, as \<^verbatim>\<open>not v\<close> and \<^verbatim>\<open>x if v else y\<close> test it.\<close>

fun truthy :: "json \<Rightarrow> bool" where
  "truthy JNull = False"
| "truthy (JBool b) = b"
| "truthy (JInt n) = (n \<noteq> 0)"
| "truthy (JFloat f) = (f \<noteq> Finite 0)"
| "truthy (JStr s) = (s \<noteq> [])"
| "truthy (JArr xs) = (xs \<noteq> [])"
| "truthy (JObj d) = (d \<noteq> [])"

text \<open>\<^verbatim>\<open>v.get(k, default)\<close>: only a dict has the method.\<close>

fun py_get :: "json \<Rightarrow> string \<Rightarrow> json \<Rightarrow> py_exn + json" where
  "py_get (JObj d) k dflt = Inr (case map_of d k of None \<Rightarrow> dflt | Some x \<Rightarrow> x)"
| "py_get _ k dflt = Inl AttributeError"

text \<open>
  \<^verbatim>\<open>k in v\<close> for a string \<open>k\<close>: key membership on a dict, element membership on a
  list, substring test on a string, \<^verbatim>\<open>TypeError\<close> on anything else.
\<close>

fun is_substring :: "string \<Rightarrow> string \<Rightarrow> bool" where
  "is_substring k [] = (k = [])"
| "is_substring k (c # cs) = (take (length k) (c # cs) = k \<or> is_substring k cs)"

fun py_contains :: "string \<Rightarrow> json \<Rightarrow> py_exn + bool" where
  "py_contains k (JObj d) = Inr (map_of d k \<noteq> None)"
| "py_contains k (JArr xs) = Inr (JStr k \<in> set xs)"
| "py_contains k (JStr s) = Inr (is_substring k s)"
| "py_contains k _ = Inl TypeError"

text \<open>\<^verbatim>\<open>v[k]\<close> for a string \<open>k\<close>.\<close>

fun py_getitem :: "json \<Rightarrow> string \<Rightarrow> py_exn + json" where
  "py_getitem (JObj d) k = (case map_of d k of None \<Rightarrow> Inl KeyError | Some x \<Rightarrow> Inr x)"
| "py_getitem _ k = Inl TypeError"

text \<open>
  \<^verbatim>\<open>v[0]\<close>: the first element of a list, the first character of a string (a string
  is UTF-8 here, so the first character is its first byte and the continuation bytes
  after it), \<^verbatim>\<open>KeyError\<close> on a dict (its keys are strings), \<^verbatim>\<open>TypeError\<close> otherwise.
\<close>

definition is_continuation :: "char \<Rightarrow> bool" where
  "is_continuation c = (128 \<le> (of_char c :: nat) \<and> (of_char c :: nat) < 192)"

fun py_first :: "json \<Rightarrow> py_exn + json" where
  "py_first (JArr xs) = (case xs of [] \<Rightarrow> Inl IndexError | x # _ \<Rightarrow> Inr x)"
| "py_first (JStr s) =
     (case s of [] \<Rightarrow> Inl IndexError | c # cs \<Rightarrow> Inr (JStr (c # takeWhile is_continuation cs)))"
| "py_first (JObj d) = Inl KeyError"
| "py_first _ = Inl TypeError"

text \<open>\<^verbatim>\<open>v[k] = x\<close> for a string \<open>k\<close>: an existing key keeps its place, a new one is appended.\<close>

fun py_setitem :: "json \<Rightarrow> string \<Rightarrow> json \<Rightarrow> py_exn + json" where
  "py_setitem (JObj d) k x = Inr (JObj (AList.update k x d))"
| "py_setitem _ k x = Inl TypeError"

subsection \<open>Conversion to an integer\<close>

definition is_ascii :: "char \<Rightarrow> bool" where
  "is_ascii c = ((of_char c :: nat) < 128)"

definition is_digit :: "char \<Rightarrow> bool" where
  "is_digit c = (48 \<le> (of_char c :: nat) \<and> (of_char c :: nat) \<le> 57)"

definition digit_val :: "char \<Rightarrow> int" where
  "digit_val c = int (of_char c) - 48"

text \<open>
  The characters that \<^verbatim>\<open>int\<close> strips from both ends of an ASCII string: tab, line
  feed, vertical tab, form feed, carriage return (9 to 13) and space (32).
\<close>

definition is_space :: "char \<Rightarrow> bool" where
  "is_space c = (let n = (of_char c :: nat) in (9 \<le> n \<and> n \<le> 13) \<or> n = 32)"

definition strip :: "string \<Rightarrow> string" where
  "strip s = rev (dropWhile is_space (rev (dropWhile is_space s)))"

text \<open>
  Digits after the first one: a single underscore may stand between two digits.
\<close>

fun more_digits :: "int \<Rightarrow> string \<Rightarrow> int option" where
  "more_digits acc [] = Some acc"
| "more_digits acc [c] = (if is_digit c then Some (10 * acc + digit_val c) else None)"
| "more_digits acc (c # d # cs) =
     (if is_digit c then more_digits (10 * acc + digit_val c) (d # cs)
      else if c = CHR ''_'' \<and> is_digit d then more_digits (10 * acc + digit_val d) cs
      else None)"

definition digits :: "string \<Rightarrow> int option" where
  "digits s = (case s of [] \<Rightarrow> None
     | c # cs \<Rightarrow> if is_digit c then more_digits (digit_val c) cs else None)"

definition ascii_int :: "string \<Rightarrow> int option" where
  "ascii_int s =
     (case strip s of
        [] \<Rightarrow> None
      | c # cs \<Rightarrow>
          if c = CHR ''-'' then map_option uminus (digits cs)
          else if c = CHR ''+'' then digits cs
          else digits (c # cs))"

definition py_int_str :: "pylib \<Rightarrow> string \<Rightarrow> py_exn + int" where
  "py_int_str L s =
     (if list_all is_ascii s
      then if 0 < max_str_digits L \<and> 640 < length (filter is_digit s)
                \<and> max_str_digits L < length (filter is_digit s)
           then Inl ValueError
           else (case ascii_int s of None \<Rightarrow> Inl ValueError | Some n \<Rightarrow> Inr n)
      else (case int_of_text L s of None \<Rightarrow> Inl ValueError | Some n \<Rightarrow> Inr n))"

text \<open>\<^verbatim>\<open>int(x)\<close> of a float truncates towards zero.\<close>

definition trunc :: "rat \<Rightarrow> int" where
  "trunc q = (if 0 \<le> q then \<lfloor>q\<rfloor> else \<lceil>q\<rceil>)"

fun py_int :: "pylib \<Rightarrow> json \<Rightarrow> py_exn + int" where
  "py_int L (JStr s) = py_int_str L s"
| "py_int L (JInt n) = Inr n"
| "py_int L (JBool b) = Inr (if b then 1 else 0)"
| "py_int L (JFloat (Finite q)) = Inr (trunc q)"
| "py_int L (JFloat NaN) = Inl ValueError"
| "py_int L (JFloat _) = Inl OverflowError"
| "py_int L _ = Inl TypeError"

text \<open>A value inside an f-string: a string as it is, anything else through \<^verbatim>\<open>str\<close>.\<close>

definition py_format :: "pylib \<Rightarrow> json \<Rightarrow> string" where
  "py_format L v = (case v of JStr s \<Rightarrow> s | _ \<Rightarrow> str_of L v)"

section \<open>Flask responses\<close>

text \<open>
  \<^verbatim>\<open>jsonify(d)\<close> builds a response with the JSON body \<open>d\<close> and Flask's default
  status 200; a view that returns the pair \<^verbatim>\<open>(response, code)\<close> answers with that
  status instead.
\<close>

record response =
  status :: int
  body :: json

definition jsonify :: "json \<Rightarrow> response" where
  "jsonify d = \<lparr>status = 200, body = d\<rparr>"

definition with_status :: "response \<Rightarrow> int \<Rightarrow> response" where
  "with_status r code = r\<lparr>status := code\<rparr>"

section \<open>The health handler (\<^verbatim>\<open>app/healthcheck/healthcheck.py\<close>)\<close>

text \<open>
  \<^verbatim>\<open>route()\<close> logs one line and returns \<^verbatim>\<open>jsonify({"message": "type shit"})\<close>. The
  log is the list of messages emitted so far, passed in and returned extended.
\<close>

definition healthcheck_route :: "string list \<Rightarrow> response \<times> string list" where
  "healthcheck_route logged =
     (jsonify (JObj [(''message'', JStr ''type shit'')]),
      logged @ [''Healthcheck was requested''])"

section \<open>The latest-song handler (\<^verbatim>\<open>app/songs/latest_songs.py\<close>)\<close>

definition BASE_URL :: string where
  "BASE_URL = ''https://ws.audioscrobbler.com/2.0/''"

definition RECENT_TRACKS_PARAMS :: string where
  "RECENT_TRACKS_PARAMS = ''method=user.getrecenttracks&limit=1&format=json''"

definition TIMEOUT :: int where
  "TIMEOUT = 10"

text \<open>
  The outside world of one request: what \<^verbatim>\<open>requests.get(url, timeout=t)\<close> does is a
  function of the URL and the timeout. It raises (connection failure, timeout, bad URL),
  or it returns a reply with a status code and a body; \<^verbatim>\<open>req.json()\<close> raises when the
  body is not JSON (\<open>None\<close>) and returns the decoded value otherwise. Every call made
  is appended to the list of outbound calls.
\<close>

datatype http_result = Failed | Reply int "json option"

type_synonym network = "string \<Rightarrow> int \<Rightarrow> http_result"

type_synonym calls = "(string \<times> int) list"

definition requests_get :: "network \<Rightarrow> string \<Rightarrow> int \<Rightarrow> calls \<Rightarrow> http_result \<times> calls" where
  "requests_get net url t cs = (net url t, cs @ [(url, t)])"

definition req_json :: "json option \<Rightarrow> py_exn + json" where
  "req_json payload = (case payload of None \<Rightarrow> Inl JSONDecodeError | Some v \<Rightarrow> Inr v)"

text \<open>The f-string of line 15.\<close>

definition request_url :: "string \<Rightarrow> string \<Rightarrow> string" where
  "request_url user api_key =
     BASE_URL @ ''?'' @ RECENT_TRACKS_PARAMS @ ''&user='' @ user @ ''&api_key='' @ api_key"

definition internal_error :: response where
  "internal_error = with_status (jsonify (JObj [(''message'', JStr ''INTERNAL_ERROR'')])) 500"

definition no_tracks_found :: response where
  "no_tracks_found = with_status (jsonify (JObj [(''message'', JStr ''NO_TRACKS_FOUND'')])) 200"

text \<open>
  Lines 26 and 27: \<^verbatim>\<open>track_date = track.get('date', {}).get('uts')\<close>, then
  \<^verbatim>\<open>track['date_uts'] = int(track_date) if track_date else None\<close>.
\<close>

definition add_date_uts :: "pylib \<Rightarrow> json \<Rightarrow> py_exn + json" where
  "add_date_uts L track =
     bind_exn (py_get track ''date'' (JObj [])) (\<lambda>date.
     bind_exn (py_get date ''uts'' JNull) (\<lambda>track_date.
     bind_exn (if truthy track_date
               then bind_exn (py_int L track_date) (\<lambda>n. Inr (JInt n))
               else Inr JNull) (\<lambda>date_uts.
     py_setitem track ''date_uts'' date_uts)))"

text \<open>
  Lines 29 to 36: the badge when \<^verbatim>\<open>request.args.get('format')\<close> is \<^verbatim>\<open>'shields.io'\<close>
  (the query arguments are a multi-dict whose \<^verbatim>\<open>get\<close> returns the first value of a
  key), the track with the upstream status code otherwise.
\<close>

definition badge :: "string \<Rightarrow> json" where
  "badge msg =
     JObj [(''schemaVersion'', JInt 1),
           (''label'', JStr ''Last.FM Last Played Song''),
           (''message'', JStr msg)]"

definition render :: "pylib \<Rightarrow> (string \<times> string) list \<Rightarrow> int \<Rightarrow> json \<Rightarrow> py_exn + response" where
  "render L args status_code track =
     (if map_of args ''format'' = Some ''shields.io''
      then bind_exn (py_getitem track ''name'') (\<lambda>name.
           bind_exn (py_getitem track ''artist'') (\<lambda>artist.
           bind_exn (py_getitem artist ''#text'') (\<lambda>text.
           Inr (with_status (jsonify (badge (py_format L name @ '' - '' @ py_format L text))) 200))))
      else Inr (with_status (jsonify (JObj [(''track'', track)])) status_code))"

text \<open>
  Lines 18 to 36, on the outcome of \<^verbatim>\<open>requests.get\<close>: the body of the \<^verbatim>\<open>try\<close>
  after the call, with every exception as a value.
\<close>

definition try_body :: "pylib \<Rightarrow> (string \<times> string) list \<Rightarrow> http_result \<Rightarrow> py_exn + response" where
  "try_body L args req =
     (case req of
        Failed \<Rightarrow> Inl RequestException
      | Reply status_code payload \<Rightarrow>
          bind_exn (req_json payload) (\<lambda>lastfm_response.
          bind_exn (py_get lastfm_response ''recenttracks'' (JObj [])) (\<lambda>recent_tracks.
          bind_exn (py_contains ''track'' recent_tracks) (\<lambda>has_track.
          if \<not> has_track then Inr no_tracks_found
          else
            bind_exn (py_getitem recent_tracks ''track'') (\<lambda>tracks.
            if \<not> truthy tracks then Inr no_tracks_found
            else
              bind_exn (py_first tracks) (\<lambda>track.
              bind_exn (add_date_uts L track) (\<lambda>track'.
              render L args status_code track')))))))"

text \<open>
  \<^verbatim>\<open>route(user)\<close>: the environment is a map from variable names to values, and
  \<^verbatim>\<open>not api_key\<close> holds for an unset variable and for an empty one. The result is the
  response and the outbound calls made so far.
\<close>

definition latest_songs_route ::
  "pylib \<Rightarrow> (string \<rightharpoonup> string) \<Rightarrow> network \<Rightarrow> (string \<times> string) list \<Rightarrow> string \<Rightarrow> calls
     \<Rightarrow> response \<times> calls" where
  "latest_songs_route L environ net args user cs =
     (case environ ''LASTFM_API_KEY'' of
        None \<Rightarrow> (internal_error, cs)
      | Some api_key \<Rightarrow>
          if api_key = [] then (internal_error, cs)
          else
            (case requests_get net (request_url user api_key) TIMEOUT cs of
               (req, cs') \<Rightarrow>
                 (case try_body L args req of
                    Inl e \<Rightarrow> (internal_error, cs')
                  | Inr r \<Rightarrow> (r, cs'))))"

text \<open>
  An instance of the runtime parameters for the concrete evaluations below; none of them
  reaches \<open>str_of\<close> or \<open>int_of_text\<close>.
\<close>

definition demo_lib :: pylib where
  "demo_lib = \<lparr>str_of = (\<lambda>v. []), int_of_text = (\<lambda>s. None), max_str_digits = 4300\<rparr>"

text \<open>An environment that holds the API key, and an upstream that answers every call alike.\<close>

definition demo_env :: "string \<rightharpoonup> string" where
  "demo_env = [''LASTFM_API_KEY'' \<mapsto> ''k3y'']"

definition answering :: "int \<Rightarrow> json \<Rightarrow> network" where
  "answering code v = (\<lambda>url t. Reply code (Some v))"

definition recent :: "json list \<Rightarrow> json" where
  "recent tracks = JObj [(''recenttracks'', JObj [(''track'', JArr tracks)])]"

section \<open>Properties of the handlers\<close>

lemma bind_exn_simps:
  "bind_exn (Inl e) f = Inl e"
  "bind_exn (Inr x) f = f x"
  by (simp_all add: bind_exn_def)

lemma route_with_key:
  assumes "environ ''LASTFM_API_KEY'' = Some k" and "k \<noteq> []"
  shows "latest_songs_route L environ net args user cs =
           ((case try_body L args (net (request_url user k) TIMEOUT) of
               Inl e \<Rightarrow> internal_error | Inr r \<Rightarrow> r),
            cs @ [(request_url user k, TIMEOUT)])"
  using assms by (simp add: latest_songs_route_def requests_get_def split: sum.splits)

lemma try_body_first_track:
  assumes "map_of r ''recenttracks'' = Some (JObj rt)"
    and "map_of rt ''track'' = Some (JArr (t # ts))"
  shows "try_body L args (Reply sc (Some (JObj r))) =
           bind_exn (add_date_uts L t) (render L args sc)"
  using assms by (simp add: try_body_def req_json_def bind_exn_simps)

lemma add_date_uts_no_date:
  assumes "map_of t ''date'' = None"
  shows "add_date_uts L (JObj t) = Inr (JObj (AList.update ''date_uts'' JNull t))"
  using assms by (simp add: add_date_uts_def bind_exn_simps)

lemma add_date_uts_date:
  assumes "map_of t ''date'' = Some (JObj d)"
  shows "add_date_uts L (JObj t) =
     (case map_of d ''uts'' of
        None \<Rightarrow> Inr (JObj (AList.update ''date_uts'' JNull t))
      | Some v \<Rightarrow>
          if truthy v
          then (case py_int L v of
                  Inl e \<Rightarrow> Inl e
                | Inr n \<Rightarrow> Inr (JObj (AList.update ''date_uts'' (JInt n) t)))
          else Inr (JObj (AList.update ''date_uts'' JNull t)))"
  using assms by (simp add: add_date_uts_def bind_exn_def split: option.splits sum.splits)

lemma add_date_uts_Inr:
  assumes "add_date_uts L t = Inr t'"
  shows "\<exists>fields x. t = JObj fields \<and> t' = JObj (AList.update ''date_uts'' x fields)"
proof (cases t)
  case (JObj fields)
  with assms show ?thesis
    by (auto simp: add_date_uts_def bind_exn_def split: sum.splits if_splits)
qed (use assms in \<open>simp_all add: add_date_uts_def bind_exn_def\<close>)

lemma timestamp_example:
  "py_int_str L ''1700000000'' = Inr 1700000000"
  by (simp add: py_int_str_def is_ascii_def is_digit_def ascii_int_def strip_def
      is_space_def digits_def digit_val_def)

text \<open>
  The conversion on a few strings: surrounding white space and a sign are accepted, a
  single underscore may separate digits, and a control character such as FS (byte 28)
  is not white space for \<^verbatim>\<open>int\<close>.
\<close>

lemma int_examples:
  "py_int_str L [CHR '' '', CHR ''1'', CHR ''2'', CHR 0x0A] = Inr 12"
  "py_int_str L ''-7'' = Inr (- 7)"
  "py_int_str L ''1_000'' = Inr 1000"
  "py_int_str L ''1__0'' = Inl ValueError"
  "py_int_str L ''12abc'' = Inl ValueError"
  "py_int_str L [CHR 0x1C, CHR ''1'', CHR ''2''] = Inl ValueError"
  "py_int_str L [CHR ''1'', CHR ''2'', CHR 0x1F] = Inl ValueError"
  by (simp_all add: py_int_str_def is_ascii_def is_digit_def ascii_int_def strip_def
      is_space_def digits_def digit_val_def)

lemma internal_error_eq:
  "internal_error = \<lparr>status = 500, body = JObj [(''message'', JStr ''INTERNAL_ERROR'')]\<rparr>"
  by (simp add: internal_error_def with_status_def jsonify_def)

lemma no_tracks_found_eq:
  "no_tracks_found = \<lparr>status = 200, body = JObj [(''message'', JStr ''NO_TRACKS_FOUND'')]\<rparr>"
  by (simp add: no_tracks_found_def with_status_def jsonify_def)

lemma demo_env_key:
  "demo_env ''LASTFM_API_KEY'' = Some ''k3y''"
  by (simp add: demo_env_def)

text \<open>
  Claim C1. When the environment variable \<^verbatim>\<open>LASTFM_API_KEY\<close> is unset or empty, the
  latest-song handler answers HTTP 500 with the body \<^verbatim>\<open>{"message": "INTERNAL_ERROR"}\<close>
  and the list of outbound calls is what it was before the request: nothing is sent
  to the external API.
\<close>

theorem missing_api_key_internal_error:
  assumes "environ ''LASTFM_API_KEY'' = None \<or> environ ''LASTFM_API_KEY'' = Some []"
  shows "latest_songs_route L environ net args user cs =
           (\<lparr>status = 500, body = JObj [(''message'', JStr ''INTERNAL_ERROR'')]\<rparr>, cs)"
  using assms by (auto simp: latest_songs_route_def internal_error_eq)

theorem missing_api_key_internal_error_witness:
  "latest_songs_route demo_lib Map.empty (answering 200 (recent [])) [] ''rj'' [] =
     (\<lparr>status = 500, body = JObj [(''message'', JStr ''INTERNAL_ERROR'')]\<rparr>, [])
   \<and> latest_songs_route demo_lib [''LASTFM_API_KEY'' \<mapsto> []] (answering 200 (recent [])) [] ''rj'' [] =
     (\<lparr>status = 500, body = JObj [(''message'', JStr ''INTERNAL_ERROR'')]\<rparr>, [])"
  using missing_api_key_internal_error [of Map.empty demo_lib "answering 200 (recent [])" "[]" "''rj''" "[]"]
    missing_api_key_internal_error [of "[''LASTFM_API_KEY'' \<mapsto> []]" demo_lib "answering 200 (recent [])" "[]" "''rj''" "[]"]
  by simp

text \<open>
  Claim C2. When the upstream answers with a JSON object in which \<^verbatim>\<open>recenttracks\<close> is
  absent, or is an object whose \<^verbatim>\<open>track\<close> is absent or the empty sequence, the
  handler answers HTTP 200 with the body \<^verbatim>\<open>{"message": "NO_TRACKS_FOUND"}\<close>, whatever
  status code the upstream reported.
\<close>

theorem no_tracks_found_when_absent_or_empty:
  assumes "environ ''LASTFM_API_KEY'' = Some api_key" and "api_key \<noteq> []"
    and "net (request_url user api_key) TIMEOUT = Reply sc (Some (JObj r))"
    and "map_of r ''recenttracks'' = None
         \<or> (\<exists>rt. map_of r ''recenttracks'' = Some (JObj rt)
               \<and> (map_of rt ''track'' = None \<or> map_of rt ''track'' = Some (JArr [])))"
  shows "fst (latest_songs_route L environ net args user cs) =
           \<lparr>status = 200, body = JObj [(''message'', JStr ''NO_TRACKS_FOUND'')]\<rparr>"
proof -
  have "try_body L args (Reply sc (Some (JObj r))) = Inr no_tracks_found"
    using assms(4) by (auto simp: try_body_def req_json_def bind_exn_simps)
  then show ?thesis
    using assms(1-3) by (simp add: route_with_key no_tracks_found_eq)
qed

theorem no_tracks_found_when_absent_or_empty_witness:
  "fst (latest_songs_route demo_lib demo_env (answering 200 (recent [])) [] ''rj'' []) =
     \<lparr>status = 200, body = JObj [(''message'', JStr ''NO_TRACKS_FOUND'')]\<rparr>
   \<and> fst (latest_songs_route demo_lib demo_env (answering 404 (JObj [])) [] ''rj'' []) =
     \<lparr>status = 200, body = JObj [(''message'', JStr ''NO_TRACKS_FOUND'')]\<rparr>"
  using no_tracks_found_when_absent_or_empty
    [of demo_env "''k3y''" "answering 200 (recent [])" "''rj''" 200
        "[(''recenttracks'', JObj [(''track'', JArr [])])]" demo_lib "[]" "[]"]
    no_tracks_found_when_absent_or_empty
    [of demo_env "''k3y''" "answering 404 (JObj [])" "''rj''" 404 "[]" demo_lib "[]" "[]"]
  by (simp add: demo_env_key answering_def recent_def)

text \<open>
  Claim C8. The health handler takes no input of the request; on every invocation it
  answers HTTP 200 with the fixed body \<^verbatim>\<open>{"message": "type shit"}\<close> and logs one line.
  It is a total function with a single path: there is no error outcome.
\<close>

theorem healthcheck_fixed_response:
  "fst (healthcheck_route logged) =
     \<lparr>status = 200, body = JObj [(''message'', JStr ''type shit'')]\<rparr>
   \<and> snd (healthcheck_route logged) = logged @ [''Healthcheck was requested'']"
  by (simp add: healthcheck_route_def jsonify_def)

lemma add_date_uts_not_dict:
  assumes "\<forall>fields. t \<noteq> JObj fields"
  shows "add_date_uts L t = Inl AttributeError"
  using assms by (cases t) (simp_all add: add_date_uts_def bind_exn_simps)

lemma raised_internal_error:
  assumes "environ ''LASTFM_API_KEY'' = Some k" and "k \<noteq> []"
    and "try_body L args (net (request_url user k) TIMEOUT) = Inl e"
  shows "fst (latest_songs_route L environ net args user cs) =
           \<lparr>status = 500, body = JObj [(''message'', JStr ''INTERNAL_ERROR'')]\<rparr>"
  using assms by (simp add: route_with_key internal_error_eq)

lemma returned_response:
  assumes "environ ''LASTFM_API_KEY'' = Some k" and "k \<noteq> []"
    and "try_body L args (net (request_url user k) TIMEOUT) = Inr r"
  shows "fst (latest_songs_route L environ net args user cs) = r"
  using assms by (simp add: route_with_key)

text \<open>
  Claim C3 says that a response of unexpected shape, for instance a JSON object without
  \<^verbatim>\<open>recenttracks.track\<close> such as an upstream error payload, is answered with HTTP 500
  \<^verbatim>\<open>INTERNAL_ERROR\<close>. On the error payload
  \<^verbatim>\<open>{"error": 6, "message": "User not found"}\<close> the handler answers HTTP 200 with
  \<^verbatim>\<open>NO_TRACKS_FOUND\<close>: line 19 reads \<^verbatim>\<open>recenttracks\<close> with the default \<^verbatim>\<open>{}\<close>, and
  line 20 finds no \<^verbatim>\<open>track\<close> in it.
\<close>

theorem error_payload_is_no_tracks_found:
  "fst (latest_songs_route demo_lib demo_env
          (answering 200 (JObj [(''error'', JInt 6), (''message'', JStr ''User not found'')]))
          [] ''rj'' [])
     = \<lparr>status = 200, body = JObj [(''message'', JStr ''NO_TRACKS_FOUND'')]\<rparr>
   \<and> fst (latest_songs_route demo_lib demo_env
          (answering 200 (JObj [(''error'', JInt 6), (''message'', JStr ''User not found'')]))
          [] ''rj'' [])
     \<noteq> \<lparr>status = 500, body = JObj [(''message'', JStr ''INTERNAL_ERROR'')]\<rparr>"
  by (simp add: route_with_key demo_env_key answering_def try_body_def req_json_def
      bind_exn_simps no_tracks_found_eq)

lemma failed_raises:
  "try_body L args Failed = Inl RequestException"
  by (simp add: try_body_def)

lemma not_json_raises:
  "try_body L args (Reply sc None) = Inl JSONDecodeError"
  by (simp add: try_body_def req_json_def bind_exn_simps)

lemma not_dict_raises:
  assumes "\<forall>r. v \<noteq> JObj r"
  shows "try_body L args (Reply sc (Some v)) = Inl AttributeError"
  using assms by (cases v) (simp_all add: try_body_def req_json_def bind_exn_simps)

lemma scalar_recenttracks_raises:
  assumes "map_of r ''recenttracks'' = Some x"
    and "x = JNull \<or> (\<exists>b. x = JBool b) \<or> (\<exists>n. x = JInt n) \<or> (\<exists>f. x = JFloat f)"
  shows "try_body L args (Reply sc (Some (JObj r))) = Inl TypeError"
  using assms by (auto simp: try_body_def req_json_def bind_exn_simps)

lemma first_track_not_dict_raises:
  assumes "map_of r ''recenttracks'' = Some (JObj rt)"
    and "map_of rt ''track'' = Some (JArr (t # ts))"
    and "\<forall>fields. t \<noteq> JObj fields"
  shows "try_body L args (Reply sc (Some (JObj r))) = Inl AttributeError"
  using assms by (simp add: try_body_first_track add_date_uts_not_dict bind_exn_simps)

text \<open>
  Claim C3, amended. With the API key configured, the handler answers HTTP 500 with
  \<^verbatim>\<open>{"message": "INTERNAL_ERROR"}\<close>, the same for every cause, when the request raises,
  when the body is not JSON, when the decoded body is not a JSON object, when
  \<^verbatim>\<open>recenttracks\<close> is null, a boolean or a number, and when the first element of the
  track sequence is not an object. (A JSON object without \<^verbatim>\<open>recenttracks.track\<close> is
  not among the failures: it is the \<^verbatim>\<open>NO_TRACKS_FOUND\<close> answer of claim C2.)
\<close>

theorem upstream_failure_internal_error:
  assumes "environ ''LASTFM_API_KEY'' = Some api_key" and "api_key \<noteq> []"
    and "net (request_url user api_key) TIMEOUT = req"
    and "req = Failed
         \<or> (\<exists>sc. req = Reply sc None)
         \<or> (\<exists>sc v. req = Reply sc (Some v) \<and> (\<forall>r. v \<noteq> JObj r))
         \<or> (\<exists>sc r x. req = Reply sc (Some (JObj r)) \<and> map_of r ''recenttracks'' = Some x
               \<and> (x = JNull \<or> (\<exists>b. x = JBool b) \<or> (\<exists>n. x = JInt n) \<or> (\<exists>f. x = JFloat f)))
         \<or> (\<exists>sc r rt t ts. req = Reply sc (Some (JObj r))
               \<and> map_of r ''recenttracks'' = Some (JObj rt)
               \<and> map_of rt ''track'' = Some (JArr (t # ts)) \<and> (\<forall>fields. t \<noteq> JObj fields))"
  shows "fst (latest_songs_route L environ net args user cs) =
           \<lparr>status = 500, body = JObj [(''message'', JStr ''INTERNAL_ERROR'')]\<rparr>"
proof -
  have "\<exists>e. try_body L args req = Inl e"
    using assms(4)
    by (elim disjE exE conjE)
      (simp_all add: failed_raises not_json_raises not_dict_raises
        scalar_recenttracks_raises first_track_not_dict_raises)
  then show ?thesis
    using assms(1-3) raised_internal_error by blast
qed

theorem upstream_failure_internal_error_witness:
  "fst (latest_songs_route demo_lib demo_env (\<lambda>url t. Failed) [] ''rj'' []) =
     \<lparr>status = 500, body = JObj [(''message'', JStr ''INTERNAL_ERROR'')]\<rparr>
   \<and> fst (latest_songs_route demo_lib demo_env (\<lambda>url t. Reply 200 None) [] ''rj'' []) =
     \<lparr>status = 500, body = JObj [(''message'', JStr ''INTERNAL_ERROR'')]\<rparr>"
  using upstream_failure_internal_error
    [of demo_env "''k3y''" "\<lambda>url t. Failed" "''rj''" Failed demo_lib "[]" "[]"]
    upstream_failure_internal_error
    [of demo_env "''k3y''" "\<lambda>url t. Reply 200 None" "''rj''" "Reply 200 None" demo_lib "[]" "[]"]
  by (simp add: demo_env_key)

lemma py_format_str:
  "py_format L (JStr s) = s"
  by (simp add: py_format_def)

lemma map_of_update_other:
  assumes "k \<noteq> ''date_uts''"
  shows "map_of (AList.update ''date_uts'' x t) k = map_of t k"
  using assms by (simp add: update_conv')

lemma map_of_update_same:
  "map_of (AList.update ''date_uts'' x t) ''date_uts'' = Some x"
  by (simp add: update_conv')

lemma render_track:
  assumes "map_of args ''format'' \<noteq> Some ''shields.io''"
  shows "render L args sc track = Inr \<lparr>status = sc, body = JObj [(''track'', track)]\<rparr>"
  using assms by (simp add: render_def with_status_def jsonify_def)

lemma render_badge:
  assumes "map_of args ''format'' = Some ''shields.io''"
    and "map_of t ''name'' = Some name"
    and "map_of t ''artist'' = Some (JObj a)"
    and "map_of a ''#text'' = Some text"
  shows "render L args sc (JObj (AList.update ''date_uts'' x t)) =
           Inr \<lparr>status = 200,
                body = JObj [(''schemaVersion'', JInt 1),
                             (''label'', JStr ''Last.FM Last Played Song''),
                             (''message'', JStr (py_format L name @ '' - '' @ py_format L text))]\<rparr>"
  using assms
  by (simp add: render_def map_of_update_other bind_exn_simps with_status_def jsonify_def badge_def)

text \<open>
  Claim C4 says that \<^verbatim>\<open>date_uts\<close> is the integer conversion of \<^verbatim>\<open>date.uts\<close> whenever
  \<^verbatim>\<open>date.uts\<close> is present. Line 27 converts only a value that is true in Python's
  sense: for the track \<^verbatim>\<open>{"name": "Song", "date": {"uts": 0}}\<close> the field is present,
  its integer conversion is \<open>0\<close>, and \<^verbatim>\<open>date_uts\<close> is null. Likewise a present
  \<^verbatim>\<open>uts\<close> that is the empty string, which has no integer conversion, gives null.
\<close>

theorem zero_uts_is_not_converted:
  "add_date_uts demo_lib (JObj [(''name'', JStr ''Song''), (''date'', JObj [(''uts'', JInt 0)])]) =
     Inr (JObj [(''name'', JStr ''Song''), (''date'', JObj [(''uts'', JInt 0)]),
                (''date_uts'', JNull)])
   \<and> py_int demo_lib (JInt 0) = Inr 0
   \<and> add_date_uts demo_lib (JObj [(''name'', JStr ''Song''), (''date'', JObj [(''uts'', JStr [])])]) =
     Inr (JObj [(''name'', JStr ''Song''), (''date'', JObj [(''uts'', JStr [])]),
                (''date_uts'', JNull)])
   \<and> py_int demo_lib (JStr []) = Inl ValueError"
  by (simp add: add_date_uts_def bind_exn_simps py_int_str_def ascii_int_def strip_def)

text \<open>
  Claim C4, amended. For a track object, lines 26 and 27 add (or overwrite) the key
  \<^verbatim>\<open>date_uts\<close> and raise nothing in these cases: its value is null when the track has
  no \<^verbatim>\<open>date\<close>, when \<^verbatim>\<open>date\<close> is an object without \<^verbatim>\<open>uts\<close>, and when \<^verbatim>\<open>date.uts\<close> is
  present but false in Python's sense (null, false, zero, empty); it is the integer
  conversion of \<^verbatim>\<open>date.uts\<close> when that value is present, true in Python's sense and
  convertible. In particular the string \<^verbatim>\<open>"1700000000"\<close> gives the integer
  \<open>1700000000\<close>.
\<close>

theorem date_uts_truthy_or_null:
  "(map_of t ''date'' = None \<longrightarrow>
      add_date_uts L (JObj t) = Inr (JObj (AList.update ''date_uts'' JNull t)))
   \<and> (map_of t ''date'' = Some (JObj d) \<and> map_of d ''uts'' = None \<longrightarrow>
      add_date_uts L (JObj t) = Inr (JObj (AList.update ''date_uts'' JNull t)))
   \<and> (map_of t ''date'' = Some (JObj d) \<and> map_of d ''uts'' = Some v \<and> \<not> truthy v \<longrightarrow>
      add_date_uts L (JObj t) = Inr (JObj (AList.update ''date_uts'' JNull t)))
   \<and> (map_of t ''date'' = Some (JObj d) \<and> map_of d ''uts'' = Some v \<and> truthy v
        \<and> py_int L v = Inr n \<longrightarrow>
      add_date_uts L (JObj t) = Inr (JObj (AList.update ''date_uts'' (JInt n) t)))"
  by (simp add: add_date_uts_no_date add_date_uts_date)

theorem date_uts_truthy_or_null_witness:
  "add_date_uts demo_lib
     (JObj [(''name'', JStr ''Song''), (''date'', JObj [(''uts'', JStr ''1700000000'')])]) =
     Inr (JObj [(''name'', JStr ''Song''), (''date'', JObj [(''uts'', JStr ''1700000000'')]),
                (''date_uts'', JInt 1700000000)])
   \<and> add_date_uts demo_lib (JObj [(''name'', JStr ''Song'')]) =
     Inr (JObj [(''name'', JStr ''Song''), (''date_uts'', JNull)])"
  using date_uts_truthy_or_null
    [of "[(''name'', JStr ''Song''), (''date'', JObj [(''uts'', JStr ''1700000000'')])]"
        demo_lib "[(''uts'', JStr ''1700000000'')]" "JStr ''1700000000''" 1700000000]
    date_uts_truthy_or_null [of "[(''name'', JStr ''Song'')]" demo_lib]
  by (simp add: timestamp_example)

lemma add_date_uts_value:
  assumes "map_of t ''date'' = None \<and> x = JNull
     \<or> (\<exists>d. map_of t ''date'' = Some (JObj d)
          \<and> (map_of d ''uts'' = None \<and> x = JNull
             \<or> (\<exists>v. map_of d ''uts'' = Some v
                  \<and> (\<not> truthy v \<and> x = JNull
                     \<or> truthy v \<and> (\<exists>n. py_int L v = Inr n \<and> x = JInt n)))))"
  shows "add_date_uts L (JObj t) = Inr (JObj (AList.update ''date_uts'' x t))"
  using assms by (auto simp: add_date_uts_no_date add_date_uts_date)

lemma badge_after_date_step:
  assumes "environ ''LASTFM_API_KEY'' = Some api_key" and "api_key \<noteq> []"
    and "net (request_url user api_key) TIMEOUT = Reply sc (Some (JObj r))"
    and "map_of r ''recenttracks'' = Some (JObj rt)"
    and "map_of rt ''track'' = Some (JArr (JObj t # ts))"
    and "add_date_uts L (JObj t) = Inr t'"
    and "map_of args ''format'' = Some ''shields.io''"
    and "map_of t ''name'' = Some name"
    and "map_of t ''artist'' = Some (JObj a)"
    and "map_of a ''#text'' = Some text"
  shows "fst (latest_songs_route L environ net args user cs) =
           \<lparr>status = 200,
            body = JObj [(''schemaVersion'', JInt 1),
                         (''label'', JStr ''Last.FM Last Played Song''),
                         (''message'', JStr (py_format L name @ '' - '' @ py_format L text))]\<rparr>"
proof -
  obtain x where "t' = JObj (AList.update ''date_uts'' x t)"
    using add_date_uts_Inr [OF assms(6)] by auto
  then have "try_body L args (Reply sc (Some (JObj r))) =
      render L args sc (JObj (AList.update ''date_uts'' x t))"
    using assms(4-6) by (simp add: try_body_first_track bind_exn_simps)
  then show ?thesis
    using assms(1-3,7-10) by (simp add: returned_response render_badge)
qed

lemma track_after_date_step:
  assumes "environ ''LASTFM_API_KEY'' = Some api_key" and "api_key \<noteq> []"
    and "net (request_url user api_key) TIMEOUT = Reply sc (Some (JObj r))"
    and "map_of r ''recenttracks'' = Some (JObj rt)"
    and "map_of rt ''track'' = Some (JArr (t # ts))"
    and "add_date_uts L t = Inr t'"
    and "map_of args ''format'' \<noteq> Some ''shields.io''"
  shows "fst (latest_songs_route L environ net args user cs) =
           \<lparr>status = sc, body = JObj [(''track'', t')]\<rparr>"
proof -
  have "try_body L args (Reply sc (Some (JObj r))) =
      Inr \<lparr>status = sc, body = JObj [(''track'', t')]\<rparr>"
    using assms(4-7) by (simp add: try_body_first_track bind_exn_simps render_track)
  then show ?thesis
    using assms(1-3) by (simp add: returned_response)
qed

text \<open>
  Claim C5 says that every request with \<^verbatim>\<open>format=shields.io\<close> whose first track has a
  name and an artist display text gets the badge with HTTP 200. The date step of
  lines 26 and 27 runs before the format branch, whatever the format: for the track
  \<^verbatim>\<open>{"name": "Song", "artist": {"#text": "Band"}, "date": null}\<close> line 26 calls
  \<^verbatim>\<open>get\<close> on \<^verbatim>\<open>None\<close>, and the handler answers HTTP 500 with \<^verbatim>\<open>INTERNAL_ERROR\<close>.
\<close>

theorem badge_fails_on_null_date:
  "fst (latest_songs_route demo_lib demo_env
          (answering 200 (recent [JObj [(''name'', JStr ''Song''),
                                        (''artist'', JObj [(''#text'', JStr ''Band'')]),
                                        (''date'', JNull)]]))
          [(''format'', ''shields.io'')] ''rj'' []) =
     \<lparr>status = 500, body = JObj [(''message'', JStr ''INTERNAL_ERROR'')]\<rparr>"
  by (simp add: route_with_key demo_env_key answering_def recent_def try_body_first_track
      add_date_uts_def bind_exn_simps internal_error_eq)

text \<open>
  Claim C5, amended. For a request with \<^verbatim>\<open>format=shields.io\<close>, when the first track of
  the upstream answer is an object with a \<^verbatim>\<open>name\<close> and an \<^verbatim>\<open>artist\<close> object holding
  \<^verbatim>\<open>#text\<close>, and its \<^verbatim>\<open>date\<close> is absent or is an object whose \<^verbatim>\<open>uts\<close> is absent, false
  in Python's sense or convertible to an integer, the handler answers HTTP 200 with
  exactly the badge object: \<^verbatim>\<open>schemaVersion\<close> 1, the label \<^verbatim>\<open>Last.FM Last Played Song\<close>
  and the message made of the name, \<^verbatim>\<open>" - "\<close> and the artist's text. The upstream
  status code plays no part.
\<close>

theorem shields_badge:
  assumes "environ ''LASTFM_API_KEY'' = Some api_key" and "api_key \<noteq> []"
    and "net (request_url user api_key) TIMEOUT = Reply sc (Some (JObj r))"
    and "map_of r ''recenttracks'' = Some (JObj rt)"
    and "map_of rt ''track'' = Some (JArr (JObj t # ts))"
    and "map_of t ''date'' = None
         \<or> (\<exists>d. map_of t ''date'' = Some (JObj d)
              \<and> (map_of d ''uts'' = None
                 \<or> (\<exists>v. map_of d ''uts'' = Some v
                      \<and> (\<not> truthy v \<or> (\<exists>n. py_int L v = Inr n)))))"
    and "map_of args ''format'' = Some ''shields.io''"
    and "map_of t ''name'' = Some name"
    and "map_of t ''artist'' = Some (JObj a)"
    and "map_of a ''#text'' = Some tx"
  shows "fst (latest_songs_route L environ net args user cs) =
           \<lparr>status = 200,
            body = JObj [(''schemaVersion'', JInt 1),
                         (''label'', JStr ''Last.FM Last Played Song''),
                         (''message'', JStr (py_format L name @ '' - '' @ py_format L tx))]\<rparr>"
proof -
  have "\<exists>x. add_date_uts L (JObj t) = Inr (JObj (AList.update ''date_uts'' x t))"
    using assms(6) by (auto simp: add_date_uts_no_date add_date_uts_date)
  then obtain t' where step: "add_date_uts L (JObj t) = Inr t'"
    by blast
  show ?thesis
    by (rule badge_after_date_step
        [where environ = environ and net = net, OF assms(1-5) step assms(7-10)])
qed

theorem shields_badge_witness:
  "fst (latest_songs_route demo_lib demo_env
          (answering 200 (recent [JObj [(''name'', JStr ''Song''),
                                        (''artist'', JObj [(''#text'', JStr ''Band'')])]]))
          [(''format'', ''shields.io'')] ''rj'' []) =
     \<lparr>status = 200,
      body = JObj [(''schemaVersion'', JInt 1),
                   (''label'', JStr ''Last.FM Last Played Song''),
                   (''message'', JStr ''Song - Band'')]\<rparr>
   \<and> fst (latest_songs_route demo_lib demo_env
          (answering 200 (recent [JObj [(''name'', JStr ''Song''),
                                        (''artist'', JObj [(''#text'', JStr ''Band'')]),
                                        (''date'', JObj [(''uts'', JStr ''1700000000'')])]]))
          [(''format'', ''shields.io'')] ''rj'' []) =
     \<lparr>status = 200,
      body = JObj [(''schemaVersion'', JInt 1),
                   (''label'', JStr ''Last.FM Last Played Song''),
                   (''message'', JStr ''Song - Band'')]\<rparr>"
  using shields_badge
    [where environ = demo_env and api_key = "''k3y''" and user = "''rj''" and sc = 200
       and net = "answering 200 (recent [JObj [(''name'', JStr ''Song''),
                                      (''artist'', JObj [(''#text'', JStr ''Band'')])]])"
       and r = "[(''recenttracks'', JObj [(''track'', JArr [JObj [(''name'', JStr ''Song''),
                                      (''artist'', JObj [(''#text'', JStr ''Band'')])]])])]"
       and rt = "[(''track'', JArr [JObj [(''name'', JStr ''Song''),
                                      (''artist'', JObj [(''#text'', JStr ''Band'')])]])]"
       and t = "[(''name'', JStr ''Song''), (''artist'', JObj [(''#text'', JStr ''Band'')])]"
       and ts = "[]" and L = demo_lib and args = "[(''format'', ''shields.io'')]"
       and name = "JStr ''Song''" and a = "[(''#text'', JStr ''Band'')]"
       and tx = "JStr ''Band''" and cs = "[]"]
    shields_badge
    [where environ = demo_env and api_key = "''k3y''" and user = "''rj''" and sc = 200
       and net = "answering 200 (recent [JObj [(''name'', JStr ''Song''),
                                      (''artist'', JObj [(''#text'', JStr ''Band'')]),
                                      (''date'', JObj [(''uts'', JStr ''1700000000'')])]])"
       and r = "[(''recenttracks'', JObj [(''track'', JArr [JObj [(''name'', JStr ''Song''),
                                      (''artist'', JObj [(''#text'', JStr ''Band'')]),
                                      (''date'', JObj [(''uts'', JStr ''1700000000'')])]])])]"
       and rt = "[(''track'', JArr [JObj [(''name'', JStr ''Song''),
                                      (''artist'', JObj [(''#text'', JStr ''Band'')]),
                                      (''date'', JObj [(''uts'', JStr ''1700000000'')])]])]"
       and t = "[(''name'', JStr ''Song''), (''artist'', JObj [(''#text'', JStr ''Band'')]),
                 (''date'', JObj [(''uts'', JStr ''1700000000'')])]"
       and ts = "[]" and L = demo_lib and args = "[(''format'', ''shields.io'')]"
       and name = "JStr ''Song''" and a = "[(''#text'', JStr ''Band'')]"
       and tx = "JStr ''Band''" and cs = "[]"]
  by (simp add: demo_env_key answering_def recent_def py_format_str timestamp_example)

text \<open>
  Claim C6 says that every request outside the badge format whose upstream answer
  yields a non-empty track sequence gets the body \<^verbatim>\<open>{"track": ...}\<close> with the upstream
  status code. Line 26 calls \<^verbatim>\<open>get\<close> on the first element and on its \<^verbatim>\<open>date\<close>: for the
  non-empty sequences \<^verbatim>\<open>["Song"]\<close> and \<^verbatim>\<open>[{"name": "Song", "date": null}]\<close> the call
  raises, and the handler answers HTTP 500 with \<^verbatim>\<open>INTERNAL_ERROR\<close> although the
  upstream reported 200.
\<close>

theorem track_response_fails_on_bad_track:
  "fst (latest_songs_route demo_lib demo_env (answering 200 (recent [JStr ''Song''])) []
          ''rj'' []) =
     \<lparr>status = 500, body = JObj [(''message'', JStr ''INTERNAL_ERROR'')]\<rparr>
   \<and> fst (latest_songs_route demo_lib demo_env
          (answering 200 (recent [JObj [(''name'', JStr ''Song''), (''date'', JNull)]])) []
          ''rj'' []) =
     \<lparr>status = 500, body = JObj [(''message'', JStr ''INTERNAL_ERROR'')]\<rparr>"
  by (simp add: route_with_key demo_env_key answering_def recent_def try_body_first_track
      add_date_uts_def bind_exn_simps internal_error_eq)

text \<open>
  Claim C6, amended. For a request whose \<^verbatim>\<open>format\<close> is not \<^verbatim>\<open>shields.io\<close>, when the
  upstream answer holds a non-empty track sequence whose first element is an object,
  and the \<^verbatim>\<open>date\<close> of that object is absent or is an object whose \<^verbatim>\<open>uts\<close> is absent,
  false in Python's sense or convertible to an integer, the handler answers with the
  status code that the upstream reported, not a fixed 200, and with the body
  \<^verbatim>\<open>{"track": ...}\<close> holding that object with \<^verbatim>\<open>date_uts\<close> set to \<open>x\<close>: the integer
  conversion of a \<^verbatim>\<open>uts\<close> that is true in Python's sense, null in the other cases.
\<close>

theorem track_response_has_upstream_status:
  assumes "environ ''LASTFM_API_KEY'' = Some api_key" and "api_key \<noteq> []"
    and "net (request_url user api_key) TIMEOUT = Reply sc (Some (JObj r))"
    and "map_of r ''recenttracks'' = Some (JObj rt)"
    and "map_of rt ''track'' = Some (JArr (JObj t # ts))"
    and "map_of t ''date'' = None \<and> x = JNull
         \<or> (\<exists>d. map_of t ''date'' = Some (JObj d)
              \<and> (map_of d ''uts'' = None \<and> x = JNull
                 \<or> (\<exists>v. map_of d ''uts'' = Some v
                      \<and> (\<not> truthy v \<and> x = JNull
                         \<or> truthy v \<and> (\<exists>n. py_int L v = Inr n \<and> x = JInt n)))))"
    and "map_of args ''format'' \<noteq> Some ''shields.io''"
  shows "fst (latest_songs_route L environ net args user cs) =
           \<lparr>status = sc,
            body = JObj [(''track'', JObj (AList.update ''date_uts'' x t))]\<rparr>"
  by (rule track_after_date_step
      [where environ = environ and net = net,
        OF assms(1-5) add_date_uts_value [OF assms(6)] assms(7)])

theorem track_response_has_upstream_status_witness:
  "fst (latest_songs_route demo_lib demo_env
          (answering 404 (recent [JObj [(''name'', JStr ''Song''),
                                        (''date'', JObj [(''uts'', JStr ''1700000000'')])]]))
          [] ''rj'' []) =
     \<lparr>status = 404,
      body = JObj [(''track'', JObj [(''name'', JStr ''Song''),
                                     (''date'', JObj [(''uts'', JStr ''1700000000'')]),
                                     (''date_uts'', JInt 1700000000)])]\<rparr>
   \<and> fst (latest_songs_route demo_lib demo_env
          (answering 404 (recent [JObj [(''name'', JStr ''Song'')]])) [] ''rj'' []) =
     \<lparr>status = 404,
      body = JObj [(''track'', JObj [(''name'', JStr ''Song''), (''date_uts'', JNull)])]\<rparr>"
  using track_response_has_upstream_status
    [where environ = demo_env and api_key = "''k3y''" and user = "''rj''" and sc = 404
       and net = "answering 404 (recent [JObj [(''name'', JStr ''Song''),
                                      (''date'', JObj [(''uts'', JStr ''1700000000'')])]])"
       and r = "[(''recenttracks'', JObj [(''track'', JArr [JObj [(''name'', JStr ''Song''),
                                      (''date'', JObj [(''uts'', JStr ''1700000000'')])]])])]"
       and rt = "[(''track'', JArr [JObj [(''name'', JStr ''Song''),
                                      (''date'', JObj [(''uts'', JStr ''1700000000'')])]])]"
       and t = "[(''name'', JStr ''Song''), (''date'', JObj [(''uts'', JStr ''1700000000'')])]"
       and ts = "[]" and L = demo_lib and x = "JInt 1700000000" and args = "[]" and cs = "[]"]
    track_response_has_upstream_status
    [where environ = demo_env and api_key = "''k3y''" and user = "''rj''" and sc = 404
       and net = "answering 404 (recent [JObj [(''name'', JStr ''Song'')]])"
       and r = "[(''recenttracks'', JObj [(''track'', JArr [JObj [(''name'', JStr ''Song'')]])])]"
       and rt = "[(''track'', JArr [JObj [(''name'', JStr ''Song'')]])]"
       and t = "[(''name'', JStr ''Song'')]"
       and ts = "[]" and L = demo_lib and x = JNull and args = "[]" and cs = "[]"]
  by (simp add: demo_env_key answering_def recent_def timestamp_example)

lemma bind_exn_InrE:
  assumes "bind_exn m f = Inr y"
  obtains x where "m = Inr x" and "f x = Inr y"
  using assms by (cases m) (simp_all add: bind_exn_def)

lemma render_shapes:
  assumes "render L args sc track = Inr resp"
  shows "(\<exists>msg. resp = \<lparr>status = 200, body = badge msg\<rparr>)
         \<or> resp = \<lparr>status = sc, body = JObj [(''track'', track)]\<rparr>"
proof (cases "map_of args ''format'' = Some ''shields.io''")
  case True
  with assms show ?thesis
    by (auto simp: render_def with_status_def jsonify_def elim!: bind_exn_InrE)
next
  case False
  with assms show ?thesis by (simp add: render_track)
qed

lemma try_body_shapes:
  assumes "try_body L args req = Inr resp"
  shows "resp = no_tracks_found
         \<or> (\<exists>msg. resp = \<lparr>status = 200, body = badge msg\<rparr>)
         \<or> (\<exists>sc track. resp = \<lparr>status = sc, body = JObj [(''track'', track)]\<rparr>)"
proof (cases req)
  case Failed
  with assms show ?thesis by (simp add: try_body_def)
next
  case (Reply sc payload)
  with assms show ?thesis
    unfolding try_body_def
    by (auto elim!: bind_exn_InrE split: if_splits dest!: render_shapes)
qed

text \<open>
  Claim C7. Whatever the inputs, an exception raised anywhere in the \<^verbatim>\<open>try\<close> block (the
  upstream call, the decoding of its body, the traversal, the date step, the
  construction of the answer) gives HTTP 500 with \<^verbatim>\<open>{"message": "INTERNAL_ERROR"}\<close>,
  and the handler always returns one of its four JSON answers: \<^verbatim>\<open>INTERNAL_ERROR\<close> with
  500, \<^verbatim>\<open>NO_TRACKS_FOUND\<close> with 200, a badge with 200, or a track with the upstream
  status code.
\<close>

theorem every_path_ends_in_json:
  "(environ ''LASTFM_API_KEY'' = Some api_key \<and> api_key \<noteq> []
      \<and> try_body L args (net (request_url user api_key) TIMEOUT) = Inl e \<longrightarrow>
    fst (latest_songs_route L environ net args user cs) =
      \<lparr>status = 500, body = JObj [(''message'', JStr ''INTERNAL_ERROR'')]\<rparr>)
   \<and> (fst (latest_songs_route L environ net args user cs) =
        \<lparr>status = 500, body = JObj [(''message'', JStr ''INTERNAL_ERROR'')]\<rparr>
      \<or> fst (latest_songs_route L environ net args user cs) =
        \<lparr>status = 200, body = JObj [(''message'', JStr ''NO_TRACKS_FOUND'')]\<rparr>
      \<or> (\<exists>msg. fst (latest_songs_route L environ net args user cs) =
        \<lparr>status = 200,
         body = JObj [(''schemaVersion'', JInt 1),
                      (''label'', JStr ''Last.FM Last Played Song''),
                      (''message'', JStr msg)]\<rparr>)
      \<or> (\<exists>sc track. fst (latest_songs_route L environ net args user cs) =
        \<lparr>status = sc, body = JObj [(''track'', track)]\<rparr>))"
proof (intro conjI impI)
  assume "environ ''LASTFM_API_KEY'' = Some api_key \<and> api_key \<noteq> []
      \<and> try_body L args (net (request_url user api_key) TIMEOUT) = Inl e"
  then show "fst (latest_songs_route L environ net args user cs) =
      \<lparr>status = 500, body = JObj [(''message'', JStr ''INTERNAL_ERROR'')]\<rparr>"
    by (simp add: raised_internal_error)
next
  let ?resp = "fst (latest_songs_route L environ net args user cs)"
  show "?resp = \<lparr>status = 500, body = JObj [(''message'', JStr ''INTERNAL_ERROR'')]\<rparr>
      \<or> ?resp = \<lparr>status = 200, body = JObj [(''message'', JStr ''NO_TRACKS_FOUND'')]\<rparr>
      \<or> (\<exists>msg. ?resp =
        \<lparr>status = 200,
         body = JObj [(''schemaVersion'', JInt 1),
                      (''label'', JStr ''Last.FM Last Played Song''),
                      (''message'', JStr msg)]\<rparr>)
      \<or> (\<exists>sc track. ?resp = \<lparr>status = sc, body = JObj [(''track'', track)]\<rparr>)"
  proof (cases "environ ''LASTFM_API_KEY''")
    case None
    then show ?thesis by (simp add: latest_songs_route_def internal_error_eq)
  next
    case (Some k)
    show ?thesis
    proof (cases "k = []")
      case True
      with Some show ?thesis by (simp add: latest_songs_route_def internal_error_eq)
    next
      case False
      show ?thesis
      proof (cases "try_body L args (net (request_url user k) TIMEOUT)")
        case (Inl e')
        with Some False show ?thesis by (simp add: raised_internal_error)
      next
        case (Inr resp)
        then have "?resp = resp"
          using Some False by (simp add: returned_response)
        with try_body_shapes [OF Inr] show ?thesis
          by (auto simp: no_tracks_found_eq badge_def)
      qed
    qed
  qed
qed

theorem every_path_ends_in_json_witness:
  "fst (latest_songs_route demo_lib demo_env (answering 200 (JArr [])) [] ''rj'' []) =
     \<lparr>status = 500, body = JObj [(''message'', JStr ''INTERNAL_ERROR'')]\<rparr>"
  using every_path_ends_in_json
    [of demo_env "''k3y''" demo_lib "[]" "answering 200 (JArr [])" "''rj''" AttributeError "[]"]
  by (simp add: demo_env_key answering_def try_body_def req_json_def bind_exn_simps)

text \<open>
  Claim C9. Whenever the handler answers with a body \<^verbatim>\<open>{"track": tr}\<close>, the upstream
  first track is an object and \<open>tr\<close> is that object with the single key \<^verbatim>\<open>date_uts\<close>
  set (added at the end, or overwritten in place): every other key has the value it
  had upstream.
\<close>

theorem track_passthrough:
  assumes "environ ''LASTFM_API_KEY'' = Some api_key" and "api_key \<noteq> []"
    and "net (request_url user api_key) TIMEOUT = Reply sc (Some (JObj r))"
    and "map_of r ''recenttracks'' = Some (JObj rt)"
    and "map_of rt ''track'' = Some (JArr (t # ts))"
    and "body (fst (latest_songs_route L environ net args user cs)) = JObj [(''track'', tr)]"
  shows "\<exists>fields x. t = JObj fields
           \<and> tr = JObj (AList.update ''date_uts'' x fields)
           \<and> map_of (AList.update ''date_uts'' x fields) ''date_uts'' = Some x
           \<and> (\<forall>k. k \<noteq> ''date_uts'' \<longrightarrow>
                 map_of (AList.update ''date_uts'' x fields) k = map_of fields k)"
proof -
  let ?resp = "fst (latest_songs_route L environ net args user cs)"
  have tb: "try_body L args (net (request_url user api_key) TIMEOUT) =
      bind_exn (add_date_uts L t) (render L args sc)"
    using assms(3-5) by (simp add: try_body_first_track)
  have not_error: "\<not> (\<exists>e. try_body L args (net (request_url user api_key) TIMEOUT) = Inl e)"
  proof
    assume "\<exists>e. try_body L args (net (request_url user api_key) TIMEOUT) = Inl e"
    then have "?resp = \<lparr>status = 500, body = JObj [(''message'', JStr ''INTERNAL_ERROR'')]\<rparr>"
      using assms(1,2) raised_internal_error by blast
    with assms(6) show False by simp
  qed
  then obtain resp where resp: "try_body L args (net (request_url user api_key) TIMEOUT) = Inr resp"
    by (cases "try_body L args (net (request_url user api_key) TIMEOUT)") auto
  then have "?resp = resp"
    using assms(1,2) by (simp add: returned_response)
  with assms(6) have body_resp: "body resp = JObj [(''track'', tr)]"
    by simp
  from resp tb obtain t' where t': "add_date_uts L t = Inr t'" and r: "render L args sc t' = Inr resp"
    by (auto elim: bind_exn_InrE)
  from render_shapes [OF r] body_resp have "tr = t'"
    by (auto simp: badge_def)
  moreover obtain fields x where "t = JObj fields" and "t' = JObj (AList.update ''date_uts'' x fields)"
    using add_date_uts_Inr [OF t'] by blast
  ultimately show ?thesis
    by (auto simp: map_of_update_same map_of_update_other)
qed

theorem track_passthrough_witness:
  "\<exists>fields x.
      JObj [(''name'', JStr ''Song''), (''date_uts'', JStr ''old''), (''url'', JStr ''u'')] = JObj fields
      \<and> JObj [(''name'', JStr ''Song''), (''date_uts'', JNull), (''url'', JStr ''u'')] =
          JObj (AList.update ''date_uts'' x fields)
      \<and> map_of (AList.update ''date_uts'' x fields) ''date_uts'' = Some x
      \<and> (\<forall>k. k \<noteq> ''date_uts'' \<longrightarrow>
            map_of (AList.update ''date_uts'' x fields) k = map_of fields k)"
  using track_passthrough
    [of demo_env "''k3y''"
        "answering 200 (recent [JObj [(''name'', JStr ''Song''), (''date_uts'', JStr ''old''),
                                      (''url'', JStr ''u'')]])"
        "''rj''" 200
        "[(''recenttracks'', JObj [(''track'', JArr [JObj [(''name'', JStr ''Song''),
             (''date_uts'', JStr ''old''), (''url'', JStr ''u'')]])])]"
        "[(''track'', JArr [JObj [(''name'', JStr ''Song''),
             (''date_uts'', JStr ''old''), (''url'', JStr ''u'')]])]"
        "JObj [(''name'', JStr ''Song''), (''date_uts'', JStr ''old''), (''url'', JStr ''u'')]"
        "[]" demo_lib "[]" "[]"
        "JObj [(''name'', JStr ''Song''), (''date_uts'', JNull), (''url'', JStr ''u'')]"]
  by (simp add: demo_env_key answering_def recent_def route_with_key try_body_first_track
      add_date_uts_no_date bind_exn_simps render_track)

text \<open>
  Claim C10. When the first track has a \<^verbatim>\<open>date\<close> object whose \<^verbatim>\<open>uts\<close> is missing or the
  empty string, lines 26 and 27 raise nothing and set \<^verbatim>\<open>date_uts\<close> to null, so the
  handler reaches the format branch with that track: without the badge format it
  answers \<^verbatim>\<open>{"track": ...}\<close> with the upstream status code, and in the badge format,
  for a track with \<^verbatim>\<open>name\<close> and \<^verbatim>\<open>artist.#text\<close>, it answers the badge; in neither
  case \<^verbatim>\<open>INTERNAL_ERROR\<close>.
\<close>

theorem missing_or_empty_uts_gives_null:
  assumes "environ ''LASTFM_API_KEY'' = Some api_key" and "api_key \<noteq> []"
    and "net (request_url user api_key) TIMEOUT = Reply sc (Some (JObj r))"
    and "map_of r ''recenttracks'' = Some (JObj rt)"
    and "map_of rt ''track'' = Some (JArr (JObj t # ts))"
    and "map_of t ''date'' = Some (JObj d)"
    and "map_of d ''uts'' = None \<or> map_of d ''uts'' = Some (JStr [])"
  shows "add_date_uts L (JObj t) = Inr (JObj (AList.update ''date_uts'' JNull t))
     \<and> try_body L args (Reply sc (Some (JObj r))) =
         render L args sc (JObj (AList.update ''date_uts'' JNull t))
     \<and> (map_of args ''format'' \<noteq> Some ''shields.io'' \<longrightarrow>
         fst (latest_songs_route L environ net args user cs) =
           \<lparr>status = sc,
            body = JObj [(''track'', JObj (AList.update ''date_uts'' JNull t))]\<rparr>)
     \<and> (map_of args ''format'' = Some ''shields.io'' \<and> map_of t ''name'' = Some name
          \<and> map_of t ''artist'' = Some (JObj a) \<and> map_of a ''#text'' = Some text \<longrightarrow>
         fst (latest_songs_route L environ net args user cs) =
           \<lparr>status = 200,
            body = JObj [(''schemaVersion'', JInt 1),
                         (''label'', JStr ''Last.FM Last Played Song''),
                         (''message'', JStr (py_format L name @ '' - '' @ py_format L text))]\<rparr>)"
proof -
  have step: "add_date_uts L (JObj t) = Inr (JObj (AList.update ''date_uts'' JNull t))"
    using assms(6,7) by (auto simp: add_date_uts_date)
  then have tb: "try_body L args (Reply sc (Some (JObj r))) =
      render L args sc (JObj (AList.update ''date_uts'' JNull t))"
    using assms(4,5) by (simp add: try_body_first_track bind_exn_simps)
  have "fst (latest_songs_route L environ net args user cs) =
      \<lparr>status = sc, body = JObj [(''track'', JObj (AList.update ''date_uts'' JNull t))]\<rparr>"
    if "map_of args ''format'' \<noteq> Some ''shields.io''"
    using that tb assms(1-3) by (simp add: returned_response render_track)
  moreover have "fst (latest_songs_route L environ net args user cs) =
      \<lparr>status = 200,
       body = JObj [(''schemaVersion'', JInt 1),
                    (''label'', JStr ''Last.FM Last Played Song''),
                    (''message'', JStr (py_format L name @ '' - '' @ py_format L text))]\<rparr>"
    if "map_of args ''format'' = Some ''shields.io''" and "map_of t ''name'' = Some name"
      and "map_of t ''artist'' = Some (JObj a)" and "map_of a ''#text'' = Some text"
    using that tb assms(1-3) by (simp add: returned_response render_badge)
  ultimately show ?thesis
    using step tb by blast
qed

theorem missing_or_empty_uts_gives_null_witness:
  "add_date_uts demo_lib
     (JObj [(''name'', JStr ''Song''), (''date'', JObj [(''uts'', JStr [])])]) =
     Inr (JObj [(''name'', JStr ''Song''), (''date'', JObj [(''uts'', JStr [])]),
                (''date_uts'', JNull)])
   \<and> fst (latest_songs_route demo_lib demo_env
          (answering 200 (recent [JObj [(''name'', JStr ''Song''),
                                        (''date'', JObj [(''uts'', JStr [])])]]))
          [] ''rj'' []) =
     \<lparr>status = 200,
      body = JObj [(''track'', JObj [(''name'', JStr ''Song''),
                                     (''date'', JObj [(''uts'', JStr [])]),
                                     (''date_uts'', JNull)])]\<rparr>
   \<and> fst (latest_songs_route demo_lib demo_env
          (answering 200 (recent [JObj [(''name'', JStr ''Song''),
                                        (''artist'', JObj [(''#text'', JStr ''Band'')]),
                                        (''date'', JObj [])]]))
          [(''format'', ''shields.io'')] ''rj'' []) =
     \<lparr>status = 200,
      body = JObj [(''schemaVersion'', JInt 1),
                   (''label'', JStr ''Last.FM Last Played Song''),
                   (''message'', JStr ''Song - Band'')]\<rparr>"
  using missing_or_empty_uts_gives_null
    [of demo_env "''k3y''"
        "answering 200 (recent [JObj [(''name'', JStr ''Song''),
                                      (''date'', JObj [(''uts'', JStr [])])]])"
        "''rj''" 200
        "[(''recenttracks'', JObj [(''track'', JArr [JObj [(''name'', JStr ''Song''),
             (''date'', JObj [(''uts'', JStr [])])]])])]"
        "[(''track'', JArr [JObj [(''name'', JStr ''Song''),
             (''date'', JObj [(''uts'', JStr [])])]])]"
        "[(''name'', JStr ''Song''), (''date'', JObj [(''uts'', JStr [])])]"
        "[]" "[(''uts'', JStr [])]" demo_lib "[]" "[]"]
    missing_or_empty_uts_gives_null
    [of demo_env "''k3y''"
        "answering 200 (recent [JObj [(''name'', JStr ''Song''),
                                      (''artist'', JObj [(''#text'', JStr ''Band'')]),
                                      (''date'', JObj [])]])"
        "''rj''" 200
        "[(''recenttracks'', JObj [(''track'', JArr [JObj [(''name'', JStr ''Song''),
             (''artist'', JObj [(''#text'', JStr ''Band'')]), (''date'', JObj [])]])])]"
        "[(''track'', JArr [JObj [(''name'', JStr ''Song''),
             (''artist'', JObj [(''#text'', JStr ''Band'')]), (''date'', JObj [])]])]"
        "[(''name'', JStr ''Song''), (''artist'', JObj [(''#text'', JStr ''Band'')]),
          (''date'', JObj [])]"
        "[]" "[]" demo_lib "[(''format'', ''shields.io'')]" "[]"
        "JStr ''Song''" "[(''#text'', JStr ''Band'')]" "JStr ''Band''"]
  by (simp add: demo_env_key answering_def recent_def py_format_str)

end
